theory Spec2Isabelle
  imports Main "HOL-Library.AList"
begin

section \<open>JavaScript values and objects\<close>

text \<open>
  The data handled by \<^verbatim>\<open>lib/model.js\<close> are plain JavaScript values: the person and
  permission objects of the callers and the documents the DynamoDB DocumentClient stores
  and returns. An object is an association list from property names to values, in
  property order. A property that is absent reads as \<^verbatim>\<open>undefined\<close>: a read yields an
  option and \<open>None\<close> stands for \<^verbatim>\<open>undefined\<close>, so no object holds an undefined value.
  Numbers are integers here (JavaScript doubles are not modelled) and strings are lists of
  8-bit characters.
\<close>

datatype jsval =
    JNull
  | JBool bool
  | JNum int
  | JStr string
  | JArr "jsval list"
  | JObj "(string \<times> jsval) list"

type_synonym jsobject = "(string \<times> jsval) list"

text \<open>\<^verbatim>\<open>obj.k\<close> and \<^verbatim>\<open>obj[k]\<close>.\<close>

definition property :: "jsobject \<Rightarrow> string \<Rightarrow> jsval option" where
  "property obj k = map_of obj k"

text \<open>\<^verbatim>\<open>Object.getOwnPropertyNames(obj)\<close>.\<close>

definition getOwnPropertyNames :: "jsobject \<Rightarrow> string list" where
  "getOwnPropertyNames obj = map fst obj"

text \<open>The truth value JavaScript gives a value in a condition (\<^verbatim>\<open>v ? a : b\<close>, \<^verbatim>\<open>!v\<close>).\<close>

fun truthy :: "jsval option \<Rightarrow> bool" where
  "truthy None = False"
| "truthy (Some JNull) = False"
| "truthy (Some (JBool b)) = b"
| "truthy (Some (JNum n)) = (n \<noteq> 0)"
| "truthy (Some (JStr s)) = (s \<noteq> [])"
| "truthy (Some (JArr xs)) = True"
| "truthy (Some (JObj kvs)) = True"

text \<open>
  \<^verbatim>\<open>String.prototype.toLowerCase\<close> on the letters A to Z, and the upper-case
  counterpart with which a case-insensitive regular expression compares characters;
  every other character is left as it is.
\<close>

definition lower_char :: "char \<Rightarrow> char" where
  "lower_char c =
     (case map_of (zip ''ABCDEFGHIJKLMNOPQRSTUVWXYZ'' ''abcdefghijklmnopqrstuvwxyz'') c of
        None \<Rightarrow> c
      | Some d \<Rightarrow> d)"

definition upper_char :: "char \<Rightarrow> char" where
  "upper_char c =
     (case map_of (zip ''abcdefghijklmnopqrstuvwxyz'' ''ABCDEFGHIJKLMNOPQRSTUVWXYZ'') c of
        None \<Rightarrow> c
      | Some d \<Rightarrow> d)"

definition toLowerCase :: "string \<Rightarrow> string" where
  "toLowerCase s = map lower_char s"

text \<open>
  Errors: the \<^verbatim>\<open>TypeError\<close> of a method call on a value that has no such method, the
  \<^verbatim>\<open>Error\<close> with a message that the module throws itself, and the error with which the
  DocumentClient rejects a request it or DynamoDB finds invalid.
\<close>

datatype error =
    TypeError
  | Error string
  | ValidationException

text \<open>\<^verbatim>\<open>v.toLowerCase()\<close> for a value that need not be a string.\<close>

fun call_toLowerCase :: "jsval option \<Rightarrow> error + string" where
  "call_toLowerCase (Some (JStr s)) = Inr (toLowerCase s)"
| "call_toLowerCase v = Inl TypeError"


section \<open>The DynamoDB DocumentClient\<close>

text \<open>
  The table \<^verbatim>\<open>edu-people\<close> has the single key attribute \<^verbatim>\<open>ucinetid\<close> of type string
  (\<^verbatim>\<open>serverless.yml\<close>). A table is the list of its items under their keys, in the order
  a scan visits them. The requests are the parameter objects the module builds; a field
  that is not set is \<open>None\<close>. \<^verbatim>\<open>TableName\<close> (always the one table) and
  \<^verbatim>\<open>ReturnValues\<close> (the module drops the data an update returns) are left out.

  Expression strings are kept as their parse: the module builds only
  \<^verbatim>\<open>set p = :v, ...\<close>, \<^verbatim>\<open>remove p\<close> and \<^verbatim>\<open>attribute_exists(p)\<close>, where a path \<open>p\<close> is an
  attribute name or \<^verbatim>\<open>a.b\<close>, each part a name or a \<^verbatim>\<open>#\<close> placeholder. What
  DynamoDB checks beyond the refusals written out below (reserved words, the characters of
  a name, the size and the nesting depth of an item) is not modelled.
\<close>

type_synonym item = jsobject

type_synonym table = "(string \<times> item) list"

datatype path = Attr string | Nested string string

datatype update_expr =
    SetExpr "(path \<times> string) list"
  | RemoveExpr "path list"

datatype filter_expr = AttributeExists path

record params =
  Key :: "jsval option"
  Item :: "item option"
  UpdateExpression :: "update_expr option"
  FilterExpression :: "filter_expr option"
  ExpressionAttributeNames :: "(string \<times> jsval option) list option"
  ExpressionAttributeValues :: "(string \<times> jsval) list option"
  ExclusiveStartKey :: "string option"
  Limit :: "nat option"

definition no_params :: params where
  "no_params = \<lparr> Key = None, Item = None, UpdateExpression = None, FilterExpression = None,
     ExpressionAttributeNames = None, ExpressionAttributeValues = None,
     ExclusiveStartKey = None, Limit = None \<rparr>"

text \<open>\<^verbatim>\<open>{ ...a, ...b }\<close>: the fields set in \<open>b\<close> override those of \<open>a\<close>.\<close>

definition override :: "'a option \<Rightarrow> 'a option \<Rightarrow> 'a option" where
  "override a b = (case b of None \<Rightarrow> a | Some y \<Rightarrow> Some y)"

definition spread :: "params \<Rightarrow> params \<Rightarrow> params" where
  "spread a b = \<lparr> Key = override (Key a) (Key b), Item = override (Item a) (Item b),
     UpdateExpression = override (UpdateExpression a) (UpdateExpression b),
     FilterExpression = override (FilterExpression a) (FilterExpression b),
     ExpressionAttributeNames = override (ExpressionAttributeNames a) (ExpressionAttributeNames b),
     ExpressionAttributeValues =
       override (ExpressionAttributeValues a) (ExpressionAttributeValues b),
     ExclusiveStartKey = override (ExclusiveStartKey a) (ExclusiveStartKey b),
     Limit = override (Limit a) (Limit b) \<rparr>"

text \<open>
  A promise is a computation on the table: it is rejected with an error (\<open>Inl\<close>) or
  resolved with a value (\<open>Inr\<close>), and yields the table it leaves behind. \<open>then_p\<close> is \<^verbatim>\<open>.then\<close>: a rejection
  skips the continuation. An exception thrown before the promise exists is modelled as a
  rejection too.
\<close>

type_synonym 'a promise = "table \<Rightarrow> (error + 'a) \<times> table"

definition reject :: "error \<Rightarrow> 'a promise" where
  "reject e t = (Inl e, t)"

definition then_p :: "'a promise \<Rightarrow> ('a \<Rightarrow> 'b promise) \<Rightarrow> 'b promise" where
  "then_p m f t = (case m t of (Inl e, t') \<Rightarrow> (Inl e, t') | (Inr x, t') \<Rightarrow> f x t')"

text \<open>A key value is accepted when it is a non-empty string.\<close>

fun key_string :: "jsval option \<Rightarrow> string option" where
  "key_string (Some (JStr k)) = (if k = [] then None else Some k)"
| "key_string v = None"

text \<open>\<^verbatim>\<open>get\<close>: the item under the key, or no item.\<close>

definition doc_get :: "params \<Rightarrow> item option promise" where
  "doc_get p t =
     (case key_string (Key p) of
        None \<Rightarrow> (Inl ValidationException, t)
      | Some k \<Rightarrow> (Inr (map_of t k), t))"

text \<open>\<^verbatim>\<open>put\<close>: the item replaces whatever is stored under its key.\<close>

definition doc_put :: "params \<Rightarrow> unit promise" where
  "doc_put p t =
     (case Item p of
        None \<Rightarrow> (Inl ValidationException, t)
      | Some it \<Rightarrow>
          (case key_string (property it ''ucinetid'') of
             None \<Rightarrow> (Inl ValidationException, t)
           | Some k \<Rightarrow> (Inr (), AList.update k it t)))"

text \<open>
  A name in an expression stands for itself, or, when it starts with \<^verbatim>\<open>#\<close>, for the
  string \<^verbatim>\<open>ExpressionAttributeNames\<close> gives it. An attribute name is not empty: a
  placeholder bound to the empty string, to no string or to nothing is refused.
\<close>

fun resolve_name :: "(string \<times> jsval option) list option \<Rightarrow> string \<Rightarrow> string option" where
  "resolve_name names (c # cs) =
     (if c = CHR ''#'' then
        (case names of
           None \<Rightarrow> None
         | Some ns \<Rightarrow>
             (case map_of ns (c # cs) of
                Some (Some (JStr s)) \<Rightarrow> (if s = [] then None else Some s)
              | _ \<Rightarrow> None))
      else Some (c # cs))"
| "resolve_name names [] = None"

fun resolve_path :: "(string \<times> jsval option) list option \<Rightarrow> path \<Rightarrow> path option" where
  "resolve_path names (Attr a) = map_option Attr (resolve_name names a)"
| "resolve_path names (Nested a b) =
     (case (resolve_name names a, resolve_name names b) of
        (Some a', Some b') \<Rightarrow> Some (Nested a' b')
      | _ \<Rightarrow> None)"

text \<open>
  Writing and removing at a resolved path. A nested path needs its parent to be a map
  already; the key attribute cannot be written or removed. \<open>None\<close> is DynamoDB's
  refusal of the path.
\<close>

fun set_path :: "path \<Rightarrow> jsval \<Rightarrow> item \<Rightarrow> item option" where
  "set_path (Attr a) v it = (if a = ''ucinetid'' then None else Some (AList.update a v it))"
| "set_path (Nested a b) v it =
     (case map_of it a of
        Some (JObj m) \<Rightarrow> Some (AList.update a (JObj (AList.update b v m)) it)
      | _ \<Rightarrow> None)"

fun remove_path :: "path \<Rightarrow> item \<Rightarrow> item option" where
  "remove_path (Attr a) it = (if a = ''ucinetid'' then None else Some (AList.delete a it))"
| "remove_path (Nested a b) it =
     (case map_of it a of
        Some (JObj m) \<Rightarrow> Some (AList.update a (JObj (AList.delete b m)) it)
      | _ \<Rightarrow> None)"

fun apply_sets :: "params \<Rightarrow> (path \<times> string) list \<Rightarrow> item \<Rightarrow> item option" where
  "apply_sets p [] it = Some it"
| "apply_sets p ((pth, ph) # acts) it =
     (case (resolve_path (ExpressionAttributeNames p) pth,
            case ExpressionAttributeValues p of None \<Rightarrow> None | Some vs \<Rightarrow> map_of vs ph) of
        (Some pth', Some v) \<Rightarrow>
          (case set_path pth' v it of None \<Rightarrow> None | Some it' \<Rightarrow> apply_sets p acts it')
      | _ \<Rightarrow> None)"

fun apply_removes :: "params \<Rightarrow> path list \<Rightarrow> item \<Rightarrow> item option" where
  "apply_removes p [] it = Some it"
| "apply_removes p (pth # pths) it =
     (case resolve_path (ExpressionAttributeNames p) pth of
        None \<Rightarrow> None
      | Some pth' \<Rightarrow>
          (case remove_path pth' it of None \<Rightarrow> None | Some it' \<Rightarrow> apply_removes p pths it'))"

text \<open>
  An update expression with no action (\<^verbatim>\<open>set\<close> followed by nothing) is a syntax error,
  and so are an empty \<^verbatim>\<open>ExpressionAttributeNames\<close> or \<^verbatim>\<open>ExpressionAttributeValues\<close>.
\<close>

fun apply_expr :: "params \<Rightarrow> update_expr \<Rightarrow> item \<Rightarrow> item option" where
  "apply_expr p (SetExpr acts) it = (if acts = [] then None else apply_sets p acts it)"
| "apply_expr p (RemoveExpr pths) it = (if pths = [] then None else apply_removes p pths it)"

text \<open>
  A number is stored when its magnitude is below \<^verbatim>\<open>1e126\<close>; the DocumentClient's request
  is refused with \<^verbatim>\<open>Number overflow\<close> when a value of
  \<^verbatim>\<open>ExpressionAttributeValues\<close> holds, at any depth, a number that is not. (The item of
  a \<^verbatim>\<open>put\<close> above is not checked in this way: \<open>createPerson\<close> puts the caller's person
  fields, which the handler's schema types as strings.)
\<close>

fun storable :: "jsval \<Rightarrow> bool" where
  "storable (JNum n) = (- (10 ^ 126) < n \<and> n < 10 ^ 126)"
| "storable (JArr xs) = (\<forall>x \<in> set xs. storable x)"
| "storable (JObj kvs) = (\<forall>v \<in> snd ` set kvs. storable v)"
| "storable v = True"

definition values_storable :: "params \<Rightarrow> bool" where
  "values_storable p =
     (case ExpressionAttributeValues p of
        None \<Rightarrow> True
      | Some vs \<Rightarrow> (\<forall>v \<in> snd ` set vs. storable v))"

text \<open>
  \<^verbatim>\<open>update\<close>: the expression is applied to the item under the key, or to a new item
  holding only the key when there is none (UpdateItem adds the item if it does not exist).
  A refused request writes nothing.
\<close>

definition doc_update :: "params \<Rightarrow> unit promise" where
  "doc_update p t =
     (case key_string (Key p) of
        None \<Rightarrow> (Inl ValidationException, t)
      | Some k \<Rightarrow>
          (if ExpressionAttributeNames p = Some [] \<or> ExpressionAttributeValues p = Some []
              \<or> \<not> values_storable p
           then (Inl ValidationException, t)
           else
             (case UpdateExpression p of
                None \<Rightarrow> (Inl ValidationException, t)
              | Some e \<Rightarrow>
                  (case apply_expr p e
                          (case map_of t k of Some it \<Rightarrow> it | None \<Rightarrow> [(''ucinetid'', JStr k)]) of
                     None \<Rightarrow> (Inl ValidationException, t)
                   | Some it' \<Rightarrow> (Inr (), AList.update k it' t)))))"

text \<open>
  \<^verbatim>\<open>scan\<close>: one page. The scan resumes after \<^verbatim>\<open>ExclusiveStartKey\<close>, evaluates at least
  one and at most \<open>cap rest\<close> of the remaining rows (\<open>cap\<close> is the backend's page
  capacity, whatever it is; \<^verbatim>\<open>Limit\<close> lowers it), applies the filter to the rows it
  evaluated, and returns \<^verbatim>\<open>LastEvaluatedKey\<close> when the capacity was used up. A scan reads
  only, so it returns no table.
\<close>

record scan_output =
  Items :: "item list"
  LastEvaluatedKey :: "string option"

fun path_exists :: "path \<Rightarrow> item \<Rightarrow> bool" where
  "path_exists (Attr a) it = (map_of it a \<noteq> None)"
| "path_exists (Nested a b) it =
     (case map_of it a of Some (JObj m) \<Rightarrow> map_of m b \<noteq> None | _ \<Rightarrow> False)"

definition rows_after :: "string option \<Rightarrow> table \<Rightarrow> table" where
  "rows_after start t =
     (case start of None \<Rightarrow> t | Some k \<Rightarrow> drop 1 (dropWhile (\<lambda>r. fst r \<noteq> k) t))"

definition page_size :: "(table \<Rightarrow> nat) \<Rightarrow> nat option \<Rightarrow> table \<Rightarrow> nat" where
  "page_size cap lim rest =
     max 1 (case lim of None \<Rightarrow> cap rest | Some l \<Rightarrow> min l (cap rest))"

definition scan_page :: "(table \<Rightarrow> nat) \<Rightarrow> params \<Rightarrow> (item \<Rightarrow> bool) \<Rightarrow> table \<Rightarrow> scan_output" where
  "scan_page cap p keep t =
     (let rest = rows_after (ExclusiveStartKey p) t;
          n = page_size cap (Limit p) rest;
          page = take n rest
      in \<lparr> Items = filter keep (map snd page),
           LastEvaluatedKey = (if n \<le> length rest then Some (fst (last page)) else None) \<rparr>)"

definition doc_scan :: "(table \<Rightarrow> nat) \<Rightarrow> params \<Rightarrow> table \<Rightarrow> error + scan_output" where
  "doc_scan cap p t =
     (if Limit p = Some 0 \<or> ExpressionAttributeNames p = Some [] then Inl ValidationException
      else
        (case FilterExpression p of
           None \<Rightarrow> Inr (scan_page cap p (\<lambda>it. True) t)
         | Some (AttributeExists pth) \<Rightarrow>
             (case resolve_path (ExpressionAttributeNames p) pth of
                None \<Rightarrow> Inl ValidationException
              | Some pth' \<Rightarrow> Inr (scan_page cap p (path_exists pth') t))))"


section \<open>lib/model.js\<close>

subsection \<open>findPerson\<close>

definition findPerson :: "jsval option \<Rightarrow> item option promise" where
  "findPerson ucinetid = doc_get (no_params \<lparr> Key := ucinetid \<rparr>)"

subsection \<open>scanPeople\<close>

text \<open>\<^verbatim>\<open>/^all$/i.test(service)\<close>\<close>

fun test_all :: "string \<Rightarrow> bool" where
  "test_all [a, b, c] =
     (upper_char a = CHR ''A'' \<and> upper_char b = CHR ''L'' \<and> upper_char c = CHR ''L'')"
| "test_all s = False"

definition scan_filter :: "string \<Rightarrow> params" where
  "scan_filter service =
     (if test_all service then no_params
      else no_params
        \<lparr> FilterExpression := Some (AttributeExists (Nested ''#services'' ''#serviceName'')),
          ExpressionAttributeNames :=
            Some [(''#services'', Some (JStr ''_services'')),
                  (''#serviceName'', Some (JStr service))] \<rparr>)"

text \<open>
  The callback \<^verbatim>\<open>onScan\<close> together with the \<^verbatim>\<open>docClient.scan\<close> call that invokes it:
  the page is appended to \<open>out\<close>, and the scan is issued again from
  \<^verbatim>\<open>LastEvaluatedKey\<close> as long as the backend returns one. Nothing in the module bounds
  the number of rounds, so the result is an option: \<open>None\<close> is a promise that never
  settles.
\<close>

partial_function (option) onScan ::
  "(params \<Rightarrow> error + scan_output) \<Rightarrow> params \<Rightarrow> item list \<Rightarrow> (error + item list) option"
where
  "onScan scan ps out =
     (case scan ps of
        Inl err \<Rightarrow> Some (Inl err)
      | Inr data \<Rightarrow>
          (case LastEvaluatedKey data of
             Some k \<Rightarrow> onScan scan (ps \<lparr> ExclusiveStartKey := Some k \<rparr>) (out @ Items data)
           | None \<Rightarrow> Some (Inr (out @ Items data))))"

definition scanPeople ::
  "(table \<Rightarrow> nat) \<Rightarrow> string \<Rightarrow> params \<Rightarrow> table \<Rightarrow> (error + item list) option" where
  "scanPeople cap service paramOptions t =
     onScan (\<lambda>ps. doc_scan cap ps t) (spread (scan_filter service) paramOptions) []"

subsection \<open>createPerson\<close>

text \<open>
  A property whose value is \<^verbatim>\<open>undefined\<close> is not written by the DocumentClient
  (\<open>written\<close>); the optional fields are spread into the item only when truthy
  (\<open>optional\<close>). The spread of \<^verbatim>\<open>person.firstName ? {} : {}\<close> adds nothing either
  way.
\<close>

definition written :: "jsobject \<Rightarrow> string \<Rightarrow> jsobject" where
  "written person k = (case property person k of None \<Rightarrow> [] | Some v \<Rightarrow> [(k, v)])"

definition optional :: "jsobject \<Rightarrow> string \<Rightarrow> jsobject" where
  "optional person k = (if truthy (property person k) then written person k else [])"

definition new_item :: "string \<Rightarrow> jsobject \<Rightarrow> item" where
  "new_item ucinetid person =
     [(''ucinetid'', JStr ucinetid)] @ written person ''firstName'' @ written person ''lastName''
     @ optional person ''middleName'' @ optional person ''email'' @ optional person ''photo''
     @ [(''_services'', JObj [])]"

definition createPerson :: "jsobject \<Rightarrow> item option promise" where
  "createPerson person =
     (case call_toLowerCase (property person ''ucinetid'') of
        Inl e \<Rightarrow> reject e
      | Inr ucinetid \<Rightarrow>
          then_p (doc_put (no_params \<lparr> Item := Some (new_item ucinetid person) \<rparr>))
            (\<lambda>u. findPerson (Some (JStr ucinetid))))"

subsection \<open>updatePerson\<close>

definition updatable :: "string \<Rightarrow> bool" where
  "updatable key = (key \<notin> set [''ucinetid'', ''service'', ''services'', ''_services''])"

definition updatePerson :: "jsobject \<Rightarrow> item option promise" where
  "updatePerson person =
     (let names = filter updatable (getOwnPropertyNames person);
          keys = map (\<lambda>key. (Attr key, '':'' @ key)) names;
          vals = concat (map (\<lambda>key. written person key) names)
      in then_p
           (doc_update (no_params
              \<lparr> Key := property person ''ucinetid'',
                UpdateExpression := Some (SetExpr keys),
                ExpressionAttributeValues := Some (map (\<lambda>(key, v). ('':'' @ key, v)) vals) \<rparr>))
           (\<lambda>u. findPerson (property person ''ucinetid'')))"

subsection \<open>upsertPerson\<close>

definition upsertPerson :: "jsobject \<Rightarrow> item option promise" where
  "upsertPerson person =
     (case call_toLowerCase (property person ''ucinetid'') of
        Inl e \<Rightarrow> reject e
      | Inr lowered \<Rightarrow>
          then_p (findPerson (Some (JStr lowered)))
            (\<lambda>foundPerson.
               if foundPerson \<noteq> None then updatePerson person else createPerson person))"

subsection \<open>setPermission and removePermission\<close>

definition no_one :: "string \<Rightarrow> error" where
  "no_one ucinetid = Error (''There is no one with ucinetid '' @ ucinetid)"

definition setPermission :: "string \<Rightarrow> jsobject \<Rightarrow> item option promise" where
  "setPermission given permission =
     (let ucinetid = toLowerCase given
      in then_p (findPerson (Some (JStr ucinetid)))
           (\<lambda>foundPerson.
              if foundPerson = None then reject (no_one ucinetid)
              else then_p
                (doc_update (no_params
                   \<lparr> Key := Some (JStr ucinetid),
                     UpdateExpression :=
                       Some (SetExpr [(Nested ''#services'' ''#serviceName'', '':permission'')]),
                     ExpressionAttributeNames :=
                       Some [(''#services'', Some (JStr ''_services'')),
                             (''#serviceName'', property permission ''service'')],
                     ExpressionAttributeValues := Some [('':permission'', JObj permission)] \<rparr>))
                (\<lambda>data. findPerson (Some (JStr ucinetid)))))"

definition removePermission :: "string \<Rightarrow> string \<Rightarrow> item option promise" where
  "removePermission given service =
     (let ucinetid = toLowerCase given
      in then_p (findPerson (Some (JStr ucinetid)))
           (\<lambda>foundPerson.
              if foundPerson = None then reject (no_one ucinetid)
              else then_p
                (doc_update (no_params
                   \<lparr> Key := Some (JStr ucinetid),
                     UpdateExpression :=
                       Some (RemoveExpr [Nested ''#services'' ''#serviceName'']),
                     ExpressionAttributeNames :=
                       Some [(''#services'', Some (JStr ''_services'')),
                             (''#serviceName'', Some (JStr service))] \<rparr>))
                (\<lambda>u. findPerson (Some (JStr ucinetid)))))"

subsection \<open>Example data\<close>

text \<open>
  A creation input, the record \<open>createPerson\<close> writes for it, and the table holding
  that one person; a permission, and the same person and table once the permission is set.
\<close>

definition ann_input :: jsobject where
  "ann_input =
     [(''ucinetid'', JStr ''abc123''), (''firstName'', JStr ''Ann''), (''lastName'', JStr ''Bee'')]"

definition ann :: item where
  "ann =
     [(''ucinetid'', JStr ''abc123''), (''firstName'', JStr ''Ann''), (''lastName'', JStr ''Bee''),
      (''_services'', JObj [])]"

definition soe_table :: table where
  "soe_table = [(''abc123'', ann)]"

definition admin_permission :: jsobject where
  "admin_permission =
     [(''service'', JStr ''svc1''), (''roles'', JArr [JStr ''admin'']),
      (''settings'', JObj [(''a'', JNum 1)])]"

definition ann_svc1 :: item where
  "ann_svc1 =
     [(''ucinetid'', JStr ''abc123''), (''firstName'', JStr ''Ann''), (''lastName'', JStr ''Bee''),
      (''_services'', JObj [(''svc1'', JObj admin_permission)])]"

definition svc1_table :: table where
  "svc1_table = [(''abc123'', ann_svc1)]"


text \<open>
  A table of three people: the first holds a permission for \<^verbatim>\<open>svc1\<close>, the second
  none, the third one for \<^verbatim>\<open>svc1\<close> and one for a service named \<^verbatim>\<open>all\<close>.
\<close>

definition bea :: item where
  "bea = [(''ucinetid'', JStr ''bea''), (''firstName'', JStr ''Bea''), (''lastName'', JStr ''Cho''),
          (''_services'', JObj [(''svc1'', JObj admin_permission)])]"

definition cal :: item where
  "cal = [(''ucinetid'', JStr ''cal''), (''firstName'', JStr ''Cal''), (''lastName'', JStr ''Dov''),
          (''_services'', JObj [])]"

definition dee :: item where
  "dee = [(''ucinetid'', JStr ''dee''), (''firstName'', JStr ''Dee''), (''lastName'', JStr ''Eng''),
          (''_services'', JObj [(''svc1'', JObj []), (''all'', JObj [])])]"

definition three_people :: table where
  "three_people = [(''bea'', bea), (''cal'', cal), (''dee'', dee)]"

text \<open>The last two of them, and a backend whose pages hold two rows.\<close>

definition two_people :: table where
  "two_people = [(''cal'', cal), (''dee'', dee)]"

definition pages_of_two :: "table \<Rightarrow> nat" where
  "pages_of_two rest = 2"

text \<open>
  An update input for an id not yet stored, and the record and table \<open>updatePerson\<close>
  makes of it on the empty table: a person without the map \<^verbatim>\<open>_services\<close>.
\<close>

definition zed_input :: jsobject where
  "zed_input = [(''ucinetid'', JStr ''zed''), (''firstName'', JStr ''Zed'')]"

definition zed :: item where
  "zed = [(''ucinetid'', JStr ''zed''), (''firstName'', JStr ''Zed'')]"

definition zed_table :: table where
  "zed_table = [(''zed'', zed)]"


section \<open>Properties\<close>

subsection \<open>Strings and lookups\<close>

lemma lower_char_idem: "lower_char (lower_char c) = lower_char c"
  by (simp add: lower_char_def)

lemma toLowerCase_idem: "toLowerCase (toLowerCase s) = toLowerCase s"
  by (simp add: toLowerCase_def lower_char_idem)

lemma toLowerCase_Nil: "toLowerCase s = [] \<longleftrightarrow> s = []"
  by (simp add: toLowerCase_def)

lemma findPerson_string:
  "findPerson (Some (JStr k)) t =
     (if k = [] then (Inl ValidationException, t) else (Inr (map_of t k), t))"
  by (simp add: findPerson_def doc_get_def no_params_def)

lemma findPerson_reads: "snd (findPerson v t) = t"
  by (simp add: findPerson_def doc_get_def split: option.splits)

lemma findPerson_found:
  "findPerson (Some (JStr k)) t = (Inr r, t') \<Longrightarrow> k \<noteq> [] \<and> map_of t k = r \<and> t' = t"
  by (auto simp: findPerson_string split: if_splits)

subsection \<open>Permissions of a person that does not exist\<close>

text \<open>
  C6. When the lookup of the lower-cased id finds no person, \<open>setPermission\<close> and
  \<open>removePermission\<close> are both rejected with the error
  \<^verbatim>\<open>There is no one with ucinetid <id>\<close>, and the table is the one they started from:
  no request that writes has been issued.
\<close>

theorem missing_person_rejected:
  assumes "findPerson (Some (JStr (toLowerCase given))) t = (Inr None, t)"
  shows "setPermission given permission t = (Inl (no_one (toLowerCase given)), t)
       \<and> removePermission given service t = (Inl (no_one (toLowerCase given)), t)"
  using assms by (simp add: setPermission_def removePermission_def then_p_def reject_def Let_def)

theorem missing_person_rejected_witness:
  "findPerson (Some (JStr (toLowerCase ''ABC124''))) soe_table = (Inr None, soe_table)
   \<and> setPermission ''ABC124'' [(''service'', JStr ''svc1'')] soe_table
       = (Inl (Error ''There is no one with ucinetid abc124''), soe_table)
   \<and> removePermission ''ABC124'' ''svc1'' soe_table
       = (Inl (Error ''There is no one with ucinetid abc124''), soe_table)"
proof -
  have f: "findPerson (Some (JStr (toLowerCase ''ABC124''))) soe_table = (Inr None, soe_table)"
    by (simp add: findPerson_string toLowerCase_def lower_char_def soe_table_def ann_def)
  have l: "toLowerCase ''ABC124'' = ''abc124''"
    by (simp add: toLowerCase_def lower_char_def)
  show ?thesis
    using f missing_person_rejected [OF f, of "[(''service'', JStr ''svc1'')]" "''svc1''"]
    by (simp add: no_one_def l)
qed

subsection \<open>Setting and removing a permission\<close>

text \<open>
  The two update requests on a person that exists and holds the map \<^verbatim>\<open>_services\<close>,
  for a service name that is not empty and a permission the backend stores.
\<close>

lemma update_services_set:
  assumes "k \<noteq> []" "map_of t k = Some it" "map_of it ''_services'' = Some (JObj m)"
    "property permission ''service'' = Some (JStr s)" "s \<noteq> []" "storable (JObj permission)"
  shows "doc_update (no_params
           \<lparr> Key := Some (JStr k),
             UpdateExpression :=
               Some (SetExpr [(Nested ''#services'' ''#serviceName'', '':permission'')]),
             ExpressionAttributeNames :=
               Some [(''#services'', Some (JStr ''_services'')),
                     (''#serviceName'', property permission ''service'')],
             ExpressionAttributeValues := Some [('':permission'', JObj permission)] \<rparr>) t
         = (Inr (), AList.update k
              (AList.update ''_services'' (JObj (AList.update s (JObj permission) m)) it) t)"
  using assms by (simp add: doc_update_def no_params_def values_storable_def)

lemma update_services_remove:
  assumes "k \<noteq> []" "map_of t k = Some it" "map_of it ''_services'' = Some (JObj m)" "s \<noteq> []"
  shows "doc_update (no_params
           \<lparr> Key := Some (JStr k),
             UpdateExpression := Some (RemoveExpr [Nested ''#services'' ''#serviceName'']),
             ExpressionAttributeNames :=
               Some [(''#services'', Some (JStr ''_services'')),
                     (''#serviceName'', Some (JStr s))] \<rparr>) t
         = (Inr (), AList.update k
              (AList.update ''_services'' (JObj (AList.delete s m)) it) t)"
  using assms by (simp add: doc_update_def no_params_def values_storable_def)

lemma setPermission_result:
  assumes "findPerson (Some (JStr (toLowerCase given))) t = (Inr (Some it), t)"
    and "map_of it ''_services'' = Some (JObj m)"
    and "property permission ''service'' = Some (JStr s)"
    and "s \<noteq> []" and "storable (JObj permission)"
  shows "setPermission given permission t =
           (Inr (Some (AList.update ''_services'' (JObj (AList.update s (JObj permission) m)) it)),
            AList.update (toLowerCase given)
              (AList.update ''_services'' (JObj (AList.update s (JObj permission) m)) it) t)"
proof -
  from assms(1) have k: "toLowerCase given \<noteq> []" and m: "map_of t (toLowerCase given) = Some it"
    by (auto dest: findPerson_found)
  show ?thesis
    using assms(1)
    by (simp add: setPermission_def Let_def then_p_def update_services_set [OF k m assms(2-5)]
        findPerson_string k AList.update_conv')
qed

lemma removePermission_result:
  assumes "findPerson (Some (JStr (toLowerCase given))) t = (Inr (Some it), t)"
    and "map_of it ''_services'' = Some (JObj m)"
    and "s \<noteq> []"
  shows "removePermission given s t =
           (Inr (Some (AList.update ''_services'' (JObj (AList.delete s m)) it)),
            AList.update (toLowerCase given)
              (AList.update ''_services'' (JObj (AList.delete s m)) it) t)"
proof -
  from assms(1) have k: "toLowerCase given \<noteq> []" and m: "map_of t (toLowerCase given) = Some it"
    by (auto dest: findPerson_found)
  show ?thesis
    using assms(1)
    by (simp add: removePermission_def Let_def then_p_def update_services_remove [OF k m assms(2,3)]
        findPerson_string k AList.update_conv')
qed

text \<open>
  C7, as stated, fails: a person need not hold the services map. \<open>updatePerson\<close> on an id
  not yet stored makes a person without it, and \<open>removePermission\<close> on that person is
  rejected with the backend's refusal of the path, the table left as it was.
\<close>

theorem removePermission_without_services_map:
  "updatePerson zed_input [] = (Inr (Some zed), zed_table)
   \<and> findPerson (Some (JStr ''zed'')) zed_table = (Inr (Some zed), zed_table)
   \<and> removePermission ''zed'' ''svc1'' zed_table = (Inl ValidationException, zed_table)"
  by (simp add: updatePerson_def removePermission_def Let_def then_p_def doc_update_def
      no_params_def values_storable_def getOwnPropertyNames_def updatable_def property_def
      written_def findPerson_string toLowerCase_def lower_char_def zed_input_def zed_def
      zed_table_def)

text \<open>
  C7, as amended. For a person that exists (the lookup of the lower-cased id finds the
  record) and holds the services map, and a service name \<open>s\<close> that is not empty,
  \<open>removePermission\<close> resolves with the record read back, whose services map lacks the key
  \<open>s\<close>. When the key was absent already, record and table are what they were and the call
  still resolves; calling it a second time resolves with the same record and changes
  nothing.
\<close>

theorem removePermission_removes:
  assumes found: "findPerson (Some (JStr (toLowerCase given))) t = (Inr (Some it), t)"
    and services: "map_of it ''_services'' = Some (JObj m)"
    and name: "s \<noteq> []"
  shows "let it' = AList.update ''_services'' (JObj (AList.delete s m)) it;
             t' = AList.update (toLowerCase given) it' t
         in removePermission given s t = (Inr (Some it'), t')
          \<and> findPerson (Some (JStr (toLowerCase given))) t' = (Inr (Some it'), t')
          \<and> map_of it' ''_services'' = Some (JObj (AList.delete s m))
          \<and> map_of (AList.delete s m) s = None
          \<and> (map_of m s = None \<longrightarrow> it' = it \<and> t' = t)
          \<and> removePermission given s t' = (Inr (Some it'), t')"
proof -
  define it' where "it' = AList.update ''_services'' (JObj (AList.delete s m)) it"
  define t' where "t' = AList.update (toLowerCase given) it' t"
  from found have k: "toLowerCase given \<noteq> []" and m: "map_of t (toLowerCase given) = Some it"
    by (auto dest: findPerson_found)
  have first: "removePermission given s t = (Inr (Some it'), t')"
    unfolding it'_def t'_def by (rule removePermission_result [OF found services name])
  have found': "findPerson (Some (JStr (toLowerCase given))) t' = (Inr (Some it'), t')"
    by (simp add: findPerson_string k t'_def AList.update_conv')
  have services': "map_of it' ''_services'' = Some (JObj (AList.delete s m))"
    by (simp add: it'_def AList.update_conv')
  have gone: "map_of (AList.delete s m) s = None"
    by (simp add: AList.delete_conv')
  have noop: "it' = it \<and> t' = t" if "map_of m s = None"
  proof -
    from that have "s \<notin> fst ` set m" by (simp add: map_of_eq_None_iff)
    then have "AList.delete s m = m" by simp
    then have "it' = it" by (simp add: it'_def AList.update_triv services)
    then show ?thesis by (simp add: t'_def AList.update_triv m)
  qed
  have "removePermission given s t' =
          (Inr (Some (AList.update ''_services'' (JObj (AList.delete s (AList.delete s m))) it')),
           AList.update (toLowerCase given)
             (AList.update ''_services'' (JObj (AList.delete s (AList.delete s m))) it') t')"
    by (rule removePermission_result [OF found' services' name])
  moreover have "AList.update ''_services'' (JObj (AList.delete s (AList.delete s m))) it' = it'"
    by (simp add: AList.delete_idem AList.update_triv services')
  moreover have "AList.update (toLowerCase given) it' t' = t'"
    by (simp add: t'_def)
  ultimately have second: "removePermission given s t' = (Inr (Some it'), t')"
    by simp
  show ?thesis
    using first found' services' gone noop second
    unfolding Let_def it'_def [symmetric] t'_def [symmetric] by blast
qed

theorem removePermission_removes_witness:
  "findPerson (Some (JStr (toLowerCase ''ABC123''))) svc1_table = (Inr (Some ann_svc1), svc1_table)
   \<and> map_of ann_svc1 ''_services'' = Some (JObj [(''svc1'', JObj admin_permission)])
   \<and> ''svc1'' \<noteq> []
   \<and> removePermission ''ABC123'' ''svc1'' svc1_table = (Inr (Some ann), soe_table)
   \<and> removePermission ''ABC123'' ''svc1'' soe_table = (Inr (Some ann), soe_table)"
proof -
  have l: "toLowerCase ''ABC123'' = ''abc123''"
    by (simp add: toLowerCase_def lower_char_def)
  have f: "findPerson (Some (JStr (toLowerCase ''ABC123''))) svc1_table
             = (Inr (Some ann_svc1), svc1_table)"
    by (simp add: l findPerson_string svc1_table_def)
  have s: "map_of ann_svc1 ''_services'' = Some (JObj [(''svc1'', JObj admin_permission)])"
    by (simp add: ann_svc1_def)
  show ?thesis
    using f s removePermission_removes [OF f s, of "''svc1''"]
    by (simp add: Let_def l svc1_table_def soe_table_def ann_svc1_def ann_def)
qed

text \<open>
  C5, as amended. For a person that exists and holds the services map, and a permission
  whose \<^verbatim>\<open>service\<close> is a non-empty string \<open>s\<close> and whose values the backend stores,
  \<open>setPermission\<close> resolves with the record read back, in which the entry of the services map under \<open>s\<close> is the whole permission object it was
  given (its \<^verbatim>\<open>service\<close> property included); the other keys of the services map, the
  other attributes of the person and the other records of the table are unchanged.
\<close>

theorem setPermission_replaces_entry:
  assumes found: "findPerson (Some (JStr (toLowerCase given))) t = (Inr (Some it), t)"
    and services: "map_of it ''_services'' = Some (JObj m)"
    and service: "property permission ''service'' = Some (JStr s)"
    and name: "s \<noteq> []"
    and stored: "storable (JObj permission)"
  shows "let m' = AList.update s (JObj permission) m;
             it' = AList.update ''_services'' (JObj m') it;
             t' = AList.update (toLowerCase given) it' t
         in setPermission given permission t = (Inr (Some it'), t')
          \<and> findPerson (Some (JStr (toLowerCase given))) t' = (Inr (Some it'), t')
          \<and> map_of it' ''_services'' = Some (JObj m')
          \<and> map_of m' s = Some (JObj permission)
          \<and> (\<forall>s'. s' \<noteq> s \<longrightarrow> map_of m' s' = map_of m s')
          \<and> (\<forall>a. a \<noteq> ''_services'' \<longrightarrow> map_of it' a = map_of it a)
          \<and> (\<forall>k'. k' \<noteq> toLowerCase given \<longrightarrow> map_of t' k' = map_of t k')"
proof -
  from found have k: "toLowerCase given \<noteq> []"
    by (auto dest: findPerson_found)
  show ?thesis
    unfolding Let_def
    by (simp add: setPermission_result [OF found services service name stored] findPerson_string k
        AList.update_conv')
qed

theorem setPermission_replaces_entry_witness:
  "findPerson (Some (JStr (toLowerCase ''ABC123''))) soe_table = (Inr (Some ann), soe_table)
   \<and> map_of ann ''_services'' = Some (JObj [])
   \<and> property admin_permission ''service'' = Some (JStr ''svc1'')
   \<and> ''svc1'' \<noteq> [] \<and> storable (JObj admin_permission)
   \<and> setPermission ''ABC123'' admin_permission soe_table = (Inr (Some ann_svc1), svc1_table)"
proof -
  have l: "toLowerCase ''ABC123'' = ''abc123''"
    by (simp add: toLowerCase_def lower_char_def)
  have f: "findPerson (Some (JStr (toLowerCase ''ABC123''))) soe_table = (Inr (Some ann), soe_table)"
    by (simp add: l findPerson_string soe_table_def)
  have m: "map_of ann ''_services'' = Some (JObj [])"
    by (simp add: ann_def)
  have s: "property admin_permission ''service'' = Some (JStr ''svc1'')"
    by (simp add: property_def admin_permission_def)
  have n: "''svc1'' \<noteq> []"
    by simp
  have v: "storable (JObj admin_permission)"
    by (simp add: admin_permission_def)
  show ?thesis
    using f m s v setPermission_replaces_entry [OF f m s n v]
    by (simp add: Let_def l svc1_table_def soe_table_def ann_svc1_def ann_def)
qed

text \<open>
  C5, as stated, fails: after
  \<^verbatim>\<open>setPermission("abc123", {service:"svc1", roles:["admin"], settings:{a:1}})\<close> the entry
  \<^verbatim>\<open>services["svc1"]\<close> found is the object with three properties, the first being
  \<^verbatim>\<open>service\<close>, not \<^verbatim>\<open>{roles:["admin"], settings:{a:1}}\<close>.
\<close>

theorem setPermission_stores_service_field:
  "setPermission ''abc123'' admin_permission soe_table = (Inr (Some ann_svc1), svc1_table)
   \<and> findPerson (Some (JStr ''abc123'')) svc1_table = (Inr (Some ann_svc1), svc1_table)
   \<and> property ann_svc1 ''_services''
       = Some (JObj [(''svc1'', JObj [(''service'', JStr ''svc1''), (''roles'', JArr [JStr ''admin'']),
                                       (''settings'', JObj [(''a'', JNum 1)])])])
   \<and> JObj [(''service'', JStr ''svc1''), (''roles'', JArr [JStr ''admin'']),
            (''settings'', JObj [(''a'', JNum 1)])]
       \<noteq> JObj [(''roles'', JArr [JStr ''admin'']), (''settings'', JObj [(''a'', JNum 1)])]"
  by (simp add: setPermission_def Let_def then_p_def findPerson_string doc_update_def no_params_def
      values_storable_def toLowerCase_def lower_char_def property_def soe_table_def svc1_table_def
      ann_def ann_svc1_def admin_permission_def)

text \<open>
  Outside those hypotheses the requests are refused and nothing is written: an empty
  service name, and a permission holding a number the backend does not store.
\<close>

lemma permission_requests_refused:
  "setPermission ''abc123'' [(''service'', JStr [])] soe_table
     = (Inl ValidationException, soe_table)"
  "setPermission ''abc123''
       [(''service'', JStr ''svc1''), (''settings'', JObj [(''a'', JNum (10 ^ 126))])] soe_table
     = (Inl ValidationException, soe_table)"
  "removePermission ''abc123'' [] soe_table = (Inl ValidationException, soe_table)"
  by (simp_all add: setPermission_def removePermission_def Let_def then_p_def findPerson_string
      doc_update_def no_params_def values_storable_def toLowerCase_def lower_char_def property_def
      soe_table_def ann_def)

subsection \<open>Creating a person\<close>

text \<open>What a property read finds in the item \<open>createPerson\<close> builds.\<close>

lemma property_Cons: "property ((a, v) # rest) f = (if f = a then Some v else property rest f)"
  by (simp add: property_def)

lemma property_written:
  "property (written person k @ rest) f =
     (if f = k \<and> property person k \<noteq> None then property person k else property rest f)"
  by (simp add: written_def property_def split: option.splits)

lemma property_optional:
  "property (optional person k @ rest) f =
     (if f = k \<and> truthy (property person k) then property person k else property rest f)"
  by (auto simp add: optional_def written_def property_def split: option.splits)

lemma property_Nil: "property [] f = None"
  by (simp add: property_def)

lemmas new_item_unfold =
  new_item_def append_Cons append_Nil property_Cons property_written property_optional

lemma new_item_ucinetid: "property (new_item k person) ''ucinetid'' = Some (JStr k)"
  by (simp only: new_item_unfold) (auto simp: property_Nil)

lemma new_item_firstName: "property (new_item k person) ''firstName'' = property person ''firstName''"
  by (simp only: new_item_unfold) (auto simp: property_Nil)

lemma new_item_lastName: "property (new_item k person) ''lastName'' = property person ''lastName''"
  by (simp only: new_item_unfold) (auto simp: property_Nil)

lemma new_item_middleName:
  "property (new_item k person) ''middleName'' =
     (if truthy (property person ''middleName'') then property person ''middleName'' else None)"
  by (simp only: new_item_unfold) (auto simp: property_Nil)

lemma new_item_email:
  "property (new_item k person) ''email'' =
     (if truthy (property person ''email'') then property person ''email'' else None)"
  by (simp only: new_item_unfold) (auto simp: property_Nil)

lemma new_item_photo:
  "property (new_item k person) ''photo'' =
     (if truthy (property person ''photo'') then property person ''photo'' else None)"
  by (simp only: new_item_unfold) (auto simp: property_Nil)

lemma new_item_services: "property (new_item k person) ''_services'' = Some (JObj [])"
  by (simp only: new_item_unfold) (auto simp: property_Nil)

lemma createPerson_result:
  assumes "property person ''ucinetid'' = Some (JStr u)" and "u \<noteq> []"
  shows "createPerson person t =
           (Inr (Some (new_item (toLowerCase u) person)),
            AList.update (toLowerCase u) (new_item (toLowerCase u) person) t)"
  using assms
  by (simp add: createPerson_def then_p_def doc_put_def no_params_def findPerson_string
      toLowerCase_Nil AList.update_conv' new_item_ucinetid)

text \<open>
  C4. For an input whose id is a non-empty string, \<open>createPerson\<close> writes the item under
  the lower-cased id; the item holds that id, an empty services map, and each of
  \<^verbatim>\<open>email\<close>, \<^verbatim>\<open>middleName\<close>, \<^verbatim>\<open>photo\<close> exactly when the input holds it with a truthy
  value (for a string: a non-empty one), never as \<^verbatim>\<open>null\<close> or as an empty string. The
  value returned is the one \<open>findPerson\<close> reads from the table after the write.
\<close>

theorem createPerson_writes:
  assumes "property person ''ucinetid'' = Some (JStr u)" and "u \<noteq> []"
  shows "let k = toLowerCase u; it = new_item k person; t' = AList.update k it t
         in createPerson person t = (Inr (Some it), t')
          \<and> map_of t' k = Some it
          \<and> findPerson (Some (JStr k)) t' = (Inr (Some it), t')
          \<and> property it ''ucinetid'' = Some (JStr k)
          \<and> property it ''_services'' = Some (JObj [])
          \<and> (\<forall>f \<in> {''email'', ''middleName'', ''photo''}.
                property it f = (if truthy (property person f) then property person f else None)
                \<and> property it f \<noteq> Some JNull \<and> property it f \<noteq> Some (JStr []))"
  unfolding Let_def
  by (auto simp add: createPerson_result [OF assms] findPerson_string toLowerCase_Nil assms(2)
      AList.update_conv' new_item_ucinetid new_item_services new_item_email new_item_middleName
      new_item_photo)

theorem createPerson_writes_witness:
  "property ((''email'', JStr '''') # ann_input) ''ucinetid'' = Some (JStr ''abc123'')
   \<and> ''abc123'' \<noteq> []
   \<and> createPerson ((''email'', JStr '''') # ann_input) [] = (Inr (Some ann), soe_table)"
  using createPerson_writes [of "(''email'', JStr '''') # ann_input" "''abc123''" "[]"]
  by (simp add: Let_def property_def ann_input_def ann_def soe_table_def new_item_def written_def
      optional_def toLowerCase_def lower_char_def)

text \<open>
  C9, as stated, fails: an input holding only an id is written and returned, as a record
  with neither \<^verbatim>\<open>firstName\<close> nor \<^verbatim>\<open>lastName\<close>.
\<close>

theorem createPerson_accepts_missing_names:
  "createPerson [(''ucinetid'', JStr ''abc123'')] []
     = (Inr (Some [(''ucinetid'', JStr ''abc123''), (''_services'', JObj [])]),
        [(''abc123'', [(''ucinetid'', JStr ''abc123''), (''_services'', JObj [])])])"
  by (simp add: createPerson_def then_p_def doc_put_def no_params_def findPerson_string
      property_def new_item_def written_def optional_def toLowerCase_def lower_char_def)

text \<open>
  C9, as amended. An input without an id is rejected with the \<^verbatim>\<open>TypeError\<close> of
  \<^verbatim>\<open>person.ucinetid.toLowerCase()\<close> and nothing is written. \<^verbatim>\<open>firstName\<close> and
  \<^verbatim>\<open>lastName\<close> are not checked: for an input whose id is a non-empty string the record is
  written, and it holds each of the two exactly when the input does.
\<close>

theorem createPerson_unvalidated:
  "(property person ''ucinetid'' = None \<longrightarrow> createPerson person t = (Inl TypeError, t))
   \<and> (property person ''ucinetid'' = Some (JStr u) \<and> u \<noteq> [] \<longrightarrow>
        (let k = toLowerCase u; it = new_item k person
         in createPerson person t = (Inr (Some it), AList.update k it t)
          \<and> property it ''firstName'' = property person ''firstName''
          \<and> property it ''lastName'' = property person ''lastName''))"
proof -
  have "createPerson person t = (Inl TypeError, t)" if "property person ''ucinetid'' = None"
    using that by (simp add: createPerson_def reject_def)
  moreover have "createPerson person t
      = (Inr (Some (new_item (toLowerCase u) person)),
         AList.update (toLowerCase u) (new_item (toLowerCase u) person) t)"
    if "property person ''ucinetid'' = Some (JStr u)" "u \<noteq> []"
    using that by (rule createPerson_result)
  ultimately show ?thesis
    by (simp add: Let_def new_item_firstName new_item_lastName)
qed

theorem createPerson_unvalidated_witness:
  "property [(''firstName'', JStr ''Ann'')] ''ucinetid'' = None
   \<and> createPerson [(''firstName'', JStr ''Ann'')] soe_table = (Inl TypeError, soe_table)
   \<and> property [(''ucinetid'', JStr ''Xy''), (''lastName'', JStr ''Bee'')] ''ucinetid'' = Some (JStr ''Xy'')
   \<and> createPerson [(''ucinetid'', JStr ''Xy''), (''lastName'', JStr ''Bee'')] []
       = (Inr (Some [(''ucinetid'', JStr ''xy''), (''lastName'', JStr ''Bee''), (''_services'', JObj [])]),
          [(''xy'', [(''ucinetid'', JStr ''xy''), (''lastName'', JStr ''Bee''), (''_services'', JObj [])])])"
  using createPerson_unvalidated [of "[(''firstName'', JStr ''Ann'')]" soe_table "''u''"]
    createPerson_unvalidated [of "[(''ucinetid'', JStr ''Xy''), (''lastName'', JStr ''Bee'')]" "[]" "''Xy''"]
  by (simp add: Let_def property_def new_item_def written_def
      optional_def toLowerCase_def lower_char_def)

subsection \<open>Upsert\<close>

text \<open>
  C2. For an input whose id is a string, \<open>upsertPerson\<close> looks up the lower-cased id, which
  leaves the table as it is, and then is \<open>createPerson\<close> on the same input when the lookup
  finds no record, \<open>updatePerson\<close> on the same input when it finds one, and the lookup's
  own rejection otherwise; whatever the input's other properties are.
\<close>

theorem upsertPerson_dispatch:
  assumes "property person ''ucinetid'' = Some (JStr u)"
  shows "(findPerson (Some (JStr (toLowerCase u))) t = (Inr None, t)
            \<longrightarrow> upsertPerson person t = createPerson person t)
       \<and> (\<forall>it. findPerson (Some (JStr (toLowerCase u))) t = (Inr (Some it), t)
            \<longrightarrow> upsertPerson person t = updatePerson person t)
       \<and> (\<forall>e. findPerson (Some (JStr (toLowerCase u))) t = (Inl e, t)
            \<longrightarrow> upsertPerson person t = (Inl e, t))
       \<and> snd (findPerson (Some (JStr (toLowerCase u))) t) = t"
  using assms by (simp add: upsertPerson_def then_p_def findPerson_reads)

theorem upsertPerson_dispatch_witness:
  "property ann_input ''ucinetid'' = Some (JStr ''abc123'')
   \<and> findPerson (Some (JStr (toLowerCase ''abc123''))) [] = (Inr None, [])
   \<and> upsertPerson ann_input [] = createPerson ann_input []
   \<and> findPerson (Some (JStr (toLowerCase ''abc123''))) soe_table = (Inr (Some ann), soe_table)
   \<and> upsertPerson ann_input soe_table = updatePerson ann_input soe_table"
proof -
  have p: "property ann_input ''ucinetid'' = Some (JStr ''abc123'')"
    by (simp add: property_def ann_input_def)
  have l: "toLowerCase ''abc123'' = ''abc123''"
    by (simp add: toLowerCase_def lower_char_def)
  have f0: "findPerson (Some (JStr (toLowerCase ''abc123''))) [] = (Inr None, [])"
    by (simp add: l findPerson_string)
  have f1: "findPerson (Some (JStr (toLowerCase ''abc123''))) soe_table = (Inr (Some ann), soe_table)"
    by (simp add: l findPerson_string soe_table_def)
  show ?thesis
    using p f0 f1 upsertPerson_dispatch [OF p, of "[]"] upsertPerson_dispatch [OF p, of soe_table]
    by simp
qed

subsection \<open>Update with nothing to update\<close>

text \<open>
  C8. With only the id, or the id and the excluded \<^verbatim>\<open>service\<close>, \<open>updatePerson\<close> sends
  the expression \<^verbatim>\<open>set\<close> with no action and empty values, which is refused: the promise is
  rejected instead of resolving with the current record, also when reached through
  \<open>upsertPerson\<close>. The table is unchanged.
\<close>

theorem updatePerson_without_fields_rejected:
  "updatePerson [(''ucinetid'', JStr ''abc123'')] soe_table = (Inl ValidationException, soe_table)
   \<and> updatePerson [(''ucinetid'', JStr ''abc123''), (''service'', JStr ''svc1'')] soe_table
       = (Inl ValidationException, soe_table)
   \<and> upsertPerson [(''ucinetid'', JStr ''abc123'')] soe_table = (Inl ValidationException, soe_table)"
  by (simp add: upsertPerson_def updatePerson_def then_p_def doc_update_def no_params_def
      values_storable_def
      getOwnPropertyNames_def updatable_def property_def findPerson_string soe_table_def
      toLowerCase_def lower_char_def)

subsection \<open>The case of the id\<close>

text \<open>An update touches the row of its key only, and a lookup touches none.\<close>

lemma doc_update_frame:
  "key_string (Key p) = Some k \<Longrightarrow> k' \<noteq> k \<Longrightarrow> map_of (snd (doc_update p t)) k' = map_of t k'"
  by (simp add: doc_update_def AList.update_conv' split: option.splits)

lemma then_findPerson_table: "snd (then_p m (\<lambda>x. findPerson v) t) = snd (m t)"
  by (simp add: then_p_def findPerson_reads split: prod.splits sum.splits)

lemma setPermission_frame:
  assumes "k' \<noteq> toLowerCase given"
  shows "map_of (snd (setPermission given permission t)) k' = map_of t k'"
proof (cases "toLowerCase given = [] \<or> map_of t (toLowerCase given) = None")
  case True
  then show ?thesis
    by (auto simp: setPermission_def Let_def then_p_def findPerson_string reject_def)
next
  case False
  then have "snd (setPermission given permission t) =
      snd (doc_update (no_params
             \<lparr> Key := Some (JStr (toLowerCase given)),
               UpdateExpression :=
                 Some (SetExpr [(Nested ''#services'' ''#serviceName'', '':permission'')]),
               ExpressionAttributeNames :=
                 Some [(''#services'', Some (JStr ''_services'')),
                       (''#serviceName'', property permission ''service'')],
               ExpressionAttributeValues := Some [('':permission'', JObj permission)] \<rparr>) t)"
    by (auto simp add: setPermission_def Let_def then_p_def [of "findPerson _"] findPerson_string
        then_findPerson_table)
  with False assms show ?thesis
    by (simp add: doc_update_frame)
qed

lemma removePermission_frame:
  assumes "k' \<noteq> toLowerCase given"
  shows "map_of (snd (removePermission given service t)) k' = map_of t k'"
proof (cases "toLowerCase given = [] \<or> map_of t (toLowerCase given) = None")
  case True
  then show ?thesis
    by (auto simp: removePermission_def Let_def then_p_def findPerson_string reject_def)
next
  case False
  then have "snd (removePermission given service t) =
      snd (doc_update (no_params
             \<lparr> Key := Some (JStr (toLowerCase given)),
               UpdateExpression := Some (RemoveExpr [Nested ''#services'' ''#serviceName'']),
               ExpressionAttributeNames :=
                 Some [(''#services'', Some (JStr ''_services'')),
                       (''#serviceName'', Some (JStr service))] \<rparr>) t)"
    by (auto simp add: removePermission_def Let_def then_p_def [of "findPerson _"] findPerson_string
        then_findPerson_table)
  with False assms show ?thesis
    by (simp add: doc_update_frame)
qed

text \<open>
  C1, as stated, fails: \<open>findPerson\<close> passes the id on as it is, so with the person
  created as \<^verbatim>\<open>abc123\<close> the lookup of \<^verbatim>\<open>ABC123\<close> finds no record, while that of
  \<^verbatim>\<open>abc123\<close> finds it.
\<close>

theorem findPerson_case_sensitive:
  "createPerson ann_input [] = (Inr (Some ann), soe_table)
   \<and> findPerson (Some (JStr ''abc123'')) soe_table = (Inr (Some ann), soe_table)
   \<and> findPerson (Some (JStr ''ABC123'')) soe_table = (Inr None, soe_table)"
  by (simp add: createPerson_def then_p_def doc_put_def no_params_def findPerson_string
      property_def new_item_def written_def optional_def toLowerCase_def lower_char_def
      ann_input_def ann_def soe_table_def)

text \<open>
  C1, as amended. \<open>setPermission\<close> and \<open>removePermission\<close> do with any casing of an id
  what they do with its lower case, and leave every row but the one under the lower-cased
  id as it is; \<open>upsertPerson\<close> looks up the lower-cased id and, finding nothing, creates
  the person under it; \<open>findPerson\<close> looks up the id as given.
\<close>

theorem lowercase_key_operations:
  "setPermission given permission t = setPermission (toLowerCase given) permission t
   \<and> removePermission given service t = removePermission (toLowerCase given) service t
   \<and> (\<forall>k'. k' \<noteq> toLowerCase given \<longrightarrow>
         map_of (snd (setPermission given permission t)) k' = map_of t k'
         \<and> map_of (snd (removePermission given service t)) k' = map_of t k')
   \<and> (property person ''ucinetid'' = Some (JStr given) \<and> given \<noteq> []
        \<and> map_of t (toLowerCase given) = None \<longrightarrow>
         upsertPerson person t =
           (Inr (Some (new_item (toLowerCase given) person)),
            AList.update (toLowerCase given) (new_item (toLowerCase given) person) t))
   \<and> findPerson (Some (JStr given)) t =
       (if given = [] then (Inl ValidationException, t) else (Inr (map_of t given), t))"
proof -
  have "upsertPerson person t =
           (Inr (Some (new_item (toLowerCase given) person)),
            AList.update (toLowerCase given) (new_item (toLowerCase given) person) t)"
    if "property person ''ucinetid'' = Some (JStr given)" "given \<noteq> []"
      "map_of t (toLowerCase given) = None"
    using that createPerson_result [OF that(1,2), of t]
    by (simp add: upsertPerson_def then_p_def findPerson_string toLowerCase_Nil)
  then show ?thesis
    by (simp add: setPermission_def removePermission_def Let_def toLowerCase_idem
        setPermission_frame [unfolded setPermission_def Let_def]
        removePermission_frame [unfolded removePermission_def Let_def] findPerson_string)
qed

theorem lowercase_key_operations_witness:
  "setPermission ''DEE'' admin_permission three_people
     = setPermission ''dee'' admin_permission three_people
   \<and> removePermission ''DEE'' ''svc1'' three_people = removePermission ''dee'' ''svc1'' three_people
   \<and> ''bea'' \<noteq> toLowerCase ''DEE''
   \<and> map_of (snd (setPermission ''DEE'' admin_permission three_people)) ''bea'' = Some bea
   \<and> map_of (snd (removePermission ''DEE'' ''svc1'' three_people)) ''bea'' = Some bea
   \<and> findPerson (Some (JStr ''DEE'')) three_people = (Inr None, three_people)
   \<and> property ((''ucinetid'', JStr ''ABC123'') # tl ann_input) ''ucinetid'' = Some (JStr ''ABC123'')
   \<and> map_of ([] :: table) (toLowerCase ''ABC123'') = None
   \<and> upsertPerson ((''ucinetid'', JStr ''ABC123'') # tl ann_input) [] = (Inr (Some ann), soe_table)"
proof -
  have l: "toLowerCase ''ABC123'' = ''abc123''" "toLowerCase ''DEE'' = ''dee''"
    by (simp_all add: toLowerCase_def lower_char_def)
  have n: "new_item ''abc123'' ((''ucinetid'', JStr ''ABC123'') # tl ann_input) = ann"
    by (simp add: new_item_def written_def optional_def property_def ann_input_def ann_def)
  have p: "property ((''ucinetid'', JStr ''ABC123'') # tl ann_input) ''ucinetid''
             = Some (JStr ''ABC123'')"
    by (simp add: property_def)
  note dee = lowercase_key_operations [of "''DEE''" admin_permission three_people "''svc1''" "[]"]
  note abc = lowercase_key_operations [of "''ABC123''" admin_permission "[]" "''svc1''"
      "(''ucinetid'', JStr ''ABC123'') # tl ann_input"]
  from dee have set_eq: "setPermission ''DEE'' admin_permission three_people
      = setPermission ''dee'' admin_permission three_people"
    unfolding l by (rule conjunct1)
  from dee have remove_eq: "removePermission ''DEE'' ''svc1'' three_people
      = removePermission ''dee'' ''svc1'' three_people"
    unfolding l by blast
  from dee have frame: "\<forall>k'. k' \<noteq> ''dee'' \<longrightarrow>
         map_of (snd (setPermission ''DEE'' admin_permission three_people)) k'
           = map_of three_people k'
         \<and> map_of (snd (removePermission ''DEE'' ''svc1'' three_people)) k'
           = map_of three_people k'"
    unfolding l by blast
  have bea: "map_of three_people ''bea'' = Some bea"
    by (simp add: three_people_def)
  have "''bea'' \<noteq> ''dee''" by simp
  with frame bea have set_frame:
    "map_of (snd (setPermission ''DEE'' admin_permission three_people)) ''bea'' = Some bea"
    and remove_frame:
    "map_of (snd (removePermission ''DEE'' ''svc1'' three_people)) ''bea'' = Some bea"
    by auto
  from dee have "findPerson (Some (JStr ''DEE'')) three_people
      = (if ''DEE'' = [] then (Inl ValidationException, three_people)
         else (Inr (map_of three_people ''DEE''), three_people))"
    by blast
  then have find: "findPerson (Some (JStr ''DEE'')) three_people = (Inr None, three_people)"
    by (simp add: three_people_def)
  from abc p have upsert: "upsertPerson ((''ucinetid'', JStr ''ABC123'') # tl ann_input) []
      = (Inr (Some ann), soe_table)"
    by (simp add: l n soe_table_def)
  show ?thesis
    using set_eq remove_eq set_frame remove_frame find p upsert by (simp add: l)
qed

text \<open>
  The update reached through \<open>upsertPerson\<close> is keyed by the id as given: the lookup
  finds \<^verbatim>\<open>abc123\<close>, and the update then writes a second row, under \<^verbatim>\<open>ABC123\<close>.
\<close>

lemma upsertPerson_mixed_case_update:
  "upsertPerson [(''ucinetid'', JStr ''ABC123''), (''lastName'', JStr ''Cee'')] soe_table
     = (Inr (Some [(''ucinetid'', JStr ''ABC123''), (''lastName'', JStr ''Cee'')]),
        [(''abc123'', ann), (''ABC123'', [(''ucinetid'', JStr ''ABC123''), (''lastName'', JStr ''Cee'')])])"
  by (simp add: upsertPerson_def updatePerson_def then_p_def doc_update_def no_params_def
      values_storable_def
      getOwnPropertyNames_def updatable_def property_def written_def findPerson_string soe_table_def
      toLowerCase_def lower_char_def)

subsection \<open>Scanning\<close>

text \<open>
  With distinct keys, the rows after the key of row \<open>i\<close> are the rows from \<open>i + 1\<close> on,
  so each round of \<open>onScan\<close> resumes where the page before it stopped.
\<close>

lemma rows_after_nth:
  "distinct (map fst t) \<Longrightarrow> i < length t \<Longrightarrow>
     rows_after (Some (fst (t ! i))) t = drop (Suc i) t"
proof (induction t arbitrary: i)
  case Nil
  then show ?case by simp
next
  case (Cons r t)
  show ?case
  proof (cases i)
    case 0
    then show ?thesis by (simp add: rows_after_def)
  next
    case (Suc j)
    with Cons.prems have j: "j < length t" by simp
    then have "t ! j \<in> set t" by simp
    then have "fst (t ! j) \<in> fst ` set t" by (rule imageI)
    moreover from Cons.prems have "fst r \<notin> fst ` set t" by simp
    ultimately have "fst r \<noteq> fst (t ! j)" by metis
    moreover from Cons.IH [of j] Cons.prems j
    have "rows_after (Some (fst (t ! j))) t = drop (Suc j) t" by simp
    ultimately show ?thesis using Suc by (simp add: rows_after_def)
  qed
qed

lemma spread_no_params: "spread a no_params = a"
  by (simp add: spread_def override_def no_params_def)

lemma page_size_pos: "0 < page_size cap lim rest"
  by (simp add: page_size_def)

text \<open>
  The loop from any position: it settles, with what it had plus the filtered rest of the
  table, whatever the page capacity is. Induction on the number of rows still to scan.
\<close>

lemma onScan_from:
  assumes dist: "distinct (map fst t)"
    and scan: "\<And>start. doc_scan cap (ps \<lparr> ExclusiveStartKey := start \<rparr>) t
                 = Inr (scan_page cap (ps \<lparr> ExclusiveStartKey := start \<rparr>) keep t)"
    and rows: "rows_after start t = drop j t"
  shows "onScan (\<lambda>p. doc_scan cap p t) (ps \<lparr> ExclusiveStartKey := start \<rparr>) out
           = Some (Inr (out @ filter keep (map snd (drop j t))))"
  using rows
proof (induction "length t - j" arbitrary: j start out rule: less_induct)
  case less
  define n where "n = page_size cap (Limit ps) (drop j t)"
  have n1: "0 < n" by (simp add: n_def page_size_pos)
  have page: "scan_page cap (ps \<lparr> ExclusiveStartKey := start \<rparr>) keep t
      = \<lparr> Items = filter keep (map snd (take n (drop j t))),
          LastEvaluatedKey =
            (if n \<le> length (drop j t) then Some (fst (last (take n (drop j t)))) else None) \<rparr>"
    by (simp add: scan_page_def less.prems Let_def n_def)
  show ?case
  proof (cases "n \<le> length (drop j t)")
    case True
    with n1 have jn: "j + n \<le> length t" and j: "j < length t" by auto
    define i where "i = j + n - 1"
    from n1 jn have i: "i < length t" and si: "Suc i = j + n" by (auto simp: i_def)
    from True n1 have "take n (drop j t) \<noteq> []" by auto
    then have "last (take n (drop j t)) = take n (drop j t) ! (n - 1)"
      using True by (simp add: last_conv_nth min_def)
    also have "\<dots> = t ! i"
      using n1 jn by (simp add: i_def)
    finally have lst: "last (take n (drop j t)) = t ! i" .
    have next_rows: "rows_after (Some (fst (t ! i))) t = drop (j + n) t"
      using rows_after_nth [OF dist i] si by simp
    have "length t - (j + n) < length t - j"
      using n1 j by simp
    from less.hyps [OF this next_rows]
    have rec: "onScan (\<lambda>p. doc_scan cap p t) (ps \<lparr> ExclusiveStartKey := Some (fst (t ! i)) \<rparr>)
                 (out @ filter keep (map snd (take n (drop j t))))
               = Some (Inr ((out @ filter keep (map snd (take n (drop j t))))
                    @ filter keep (map snd (drop (j + n) t))))" .
    have split: "drop j t = take n (drop j t) @ drop (j + n) t"
      by (metis append_take_drop_id drop_drop add.commute)
    have "filter keep (map snd (drop j t))
            = filter keep (map snd (take n (drop j t) @ drop (j + n) t))"
      by (rule arg_cong [where f = "\<lambda>xs. filter keep (map snd xs)", OF split])
    then have "filter keep (map snd (take n (drop j t))) @ filter keep (map snd (drop (j + n) t))
            = filter keep (map snd (drop j t))"
      by simp
    with rec show ?thesis
      by (subst onScan.simps) (simp add: scan page True lst)
  next
    case False
    then show ?thesis
      by (subst onScan.simps) (simp add: scan page)
  qed
qed

lemma doc_scan_unfiltered:
  "test_all service \<Longrightarrow>
     doc_scan cap (scan_filter service \<lparr> ExclusiveStartKey := start \<rparr>) t
       = Inr (scan_page cap (scan_filter service \<lparr> ExclusiveStartKey := start \<rparr>) (\<lambda>it. True) t)"
  by (simp add: doc_scan_def scan_filter_def no_params_def)

lemma doc_scan_filtered:
  "\<not> test_all service \<Longrightarrow> service \<noteq> [] \<Longrightarrow>
     doc_scan cap (scan_filter service \<lparr> ExclusiveStartKey := start \<rparr>) t
       = Inr (scan_page cap (scan_filter service \<lparr> ExclusiveStartKey := start \<rparr>)
                (path_exists (Nested ''_services'' service)) t)"
  by (simp add: doc_scan_def scan_filter_def no_params_def)

lemma doc_scan_empty_name: "doc_scan cap (scan_filter []) t = Inl ValidationException"
  by (simp add: doc_scan_def scan_filter_def no_params_def)

lemma scan_filter_start: "scan_filter service \<lparr> ExclusiveStartKey := None \<rparr> = scan_filter service"
  by (simp add: scan_filter_def no_params_def)

lemma scanPeople_result:
  assumes "distinct (map fst t)"
  shows "scanPeople cap service no_params t =
           Some (if test_all service then Inr (map snd t)
                 else if service = [] then Inl ValidationException
                 else Inr (filter (path_exists (Nested ''_services'' service)) (map snd t)))"
proof (cases "test_all service")
  case True
  from onScan_from [OF assms doc_scan_unfiltered [OF True], where start = None and j = 0 and out = "[]"]
  show ?thesis
    by (simp add: scanPeople_def spread_no_params scan_filter_start rows_after_def True)
next
  case False
  show ?thesis
  proof (cases "service = []")
    case True
    then show ?thesis
      by (subst scanPeople_def, subst onScan.simps)
        (simp add: spread_no_params doc_scan_empty_name)
  next
    case named: False
    from onScan_from [OF assms doc_scan_filtered [OF False named],
        where start = None and j = 0 and out = "[]"]
    show ?thesis
      by (simp add: scanPeople_def spread_no_params scan_filter_start rows_after_def False named)
  qed
qed

text \<open>
  C3. On a table with distinct keys and for any page capacity of the backend, \<open>scanPeople\<close>
  settles, and resolves with every stored person when the service matches \<^verbatim>\<open>/^all$/i\<close>,
  and for any other service name with exactly the persons whose \<^verbatim>\<open>_services\<close> map has the
  key \<open>service\<close>, each once and in table order; in that case the request carries the filter
  \<^verbatim>\<open>attribute_exists(#services.#serviceName)\<close>, which the backend evaluates. The empty
  string is no service name: the backend refuses it and the promise is rejected.
\<close>

theorem scanPeople_lists:
  assumes "distinct (map fst t)"
  shows "(test_all service \<longrightarrow> scanPeople cap service no_params t = Some (Inr (map snd t)))
       \<and> (\<not> test_all service \<and> service \<noteq> [] \<longrightarrow>
            scanPeople cap service no_params t =
              Some (Inr (filter
                (\<lambda>person. case property person ''_services'' of
                             Some (JObj services) \<Rightarrow> property services service \<noteq> None
                           | _ \<Rightarrow> False)
                (map snd t))))
       \<and> (\<not> test_all service \<longrightarrow>
            FilterExpression (scan_filter service)
              = Some (AttributeExists (Nested ''#services'' ''#serviceName''))
            \<and> ExpressionAttributeNames (scan_filter service)
                = Some [(''#services'', Some (JStr ''_services'')),
                        (''#serviceName'', Some (JStr service))])
       \<and> (service = [] \<longrightarrow>
            scanPeople cap service no_params t = Some (Inl ValidationException))"
proof -
  have "path_exists (Nested ''_services'' service) =
          (\<lambda>person. case property person ''_services'' of
                       Some (JObj services) \<Rightarrow> property services service \<noteq> None
                     | _ \<Rightarrow> False)"
    by (rule ext) (simp add: property_def split: option.splits jsval.splits)
  then show ?thesis
    using scanPeople_result [OF assms, of cap service]
    by (auto simp add: scan_filter_def no_params_def)
qed

theorem scanPeople_lists_witness:
  "distinct (map fst three_people)
   \<and> test_all ''aLL''
   \<and> scanPeople (\<lambda>rest. 2) ''aLL'' no_params three_people = Some (Inr [bea, cal, dee])
   \<and> \<not> test_all ''svc1'' \<and> ''svc1'' \<noteq> []
   \<and> scanPeople (\<lambda>rest. 2) ''svc1'' no_params three_people = Some (Inr [bea, dee])
   \<and> scanPeople (\<lambda>rest. 1) ''svc1'' no_params three_people = Some (Inr [bea, dee])
   \<and> scanPeople (\<lambda>rest. 2) [] no_params three_people = Some (Inl ValidationException)"
proof -
  have d: "distinct (map fst three_people)"
    by (simp add: three_people_def)
  have a: "test_all ''aLL''" and s: "\<not> test_all ''svc1''"
    by (simp_all add: upper_char_def)
  show ?thesis
    using d a s scanPeople_lists [OF d, of "''aLL''" "\<lambda>rest. 2"]
      scanPeople_lists [OF d, of "''svc1''" "\<lambda>rest. 2"]
      scanPeople_lists [OF d, of "''svc1''" "\<lambda>rest. 1"]
      scanPeople_lists [OF d, of "[]" "\<lambda>rest. 2"]
    by (simp add: three_people_def property_def bea_def cal_def dee_def)
qed

text \<open>
  C10, as stated, fails: there are inputs for which \<open>scanPeople\<close> returns exactly the
  holders of a permission for a service named \<^verbatim>\<open>all\<close>. In the table of two people the
  only holder of \<^verbatim>\<open>all\<close> is also the only holder of \<^verbatim>\<open>svc1\<close>, and the scan for
  \<^verbatim>\<open>svc1\<close> returns that person and no other.
\<close>

theorem scanPeople_returns_holders_of_all:
  "scanPeople pages_of_two ''svc1'' no_params two_people = Some (Inr [dee])
   \<and> filter (path_exists (Nested ''_services'' ''all'')) (map snd two_people) = [dee]"
proof -
  have "distinct (map fst two_people)"
    by (simp add: two_people_def)
  then have "scanPeople pages_of_two ''svc1'' no_params two_people =
      Some (if test_all ''svc1'' then Inr (map snd two_people)
            else if ''svc1'' = [] then Inl ValidationException
            else Inr (filter (path_exists (Nested ''_services'' ''svc1'')) (map snd two_people)))"
    by (rule scanPeople_result)
  then show ?thesis
    by (simp add: two_people_def cal_def dee_def)
qed

text \<open>
  C10, as amended. For a name matching \<^verbatim>\<open>/^all$/i\<close> \<open>scanPeople\<close> builds no filter and
  resolves with every stored person; and whatever service it is called with, it never
  filters on that name: its request has no filter, or the filter is on the service it was
  called with, which is another name. Accordingly its result is every stored person, or
  the holders of that other service, or the backend's refusal of the empty name.
\<close>

theorem all_never_a_filter:
  assumes "test_all name"
  shows "scan_filter name = no_params
       \<and> (distinct (map fst t) \<longrightarrow> scanPeople cap name no_params t = Some (Inr (map snd t)))
       \<and> (scan_filter service = no_params
          \<or> service \<noteq> name
            \<and> FilterExpression (scan_filter service)
                = Some (AttributeExists (Nested ''#services'' ''#serviceName''))
            \<and> ExpressionAttributeNames (scan_filter service)
                = Some [(''#services'', Some (JStr ''_services'')),
                        (''#serviceName'', Some (JStr service))])
       \<and> (distinct (map fst t) \<longrightarrow>
            scanPeople cap service no_params t = Some (Inr (map snd t))
            \<or> service \<noteq> name
              \<and> (scanPeople cap service no_params t =
                    Some (Inr (filter (path_exists (Nested ''_services'' service)) (map snd t)))
                 \<or> scanPeople cap service no_params t = Some (Inl ValidationException)))"
proof -
  have other: "service \<noteq> name" if "\<not> test_all service"
    using that assms by auto
  have request: "scan_filter service = no_params
       \<or> service \<noteq> name
         \<and> FilterExpression (scan_filter service)
             = Some (AttributeExists (Nested ''#services'' ''#serviceName''))
         \<and> ExpressionAttributeNames (scan_filter service)
             = Some [(''#services'', Some (JStr ''_services'')),
                     (''#serviceName'', Some (JStr service))]"
    using other by (cases "test_all service") (simp_all add: scan_filter_def no_params_def)
  have result: "scanPeople cap service no_params t = Some (Inr (map snd t))
       \<or> service \<noteq> name
         \<and> (scanPeople cap service no_params t =
               Some (Inr (filter (path_exists (Nested ''_services'' service)) (map snd t)))
            \<or> scanPeople cap service no_params t = Some (Inl ValidationException))"
    if "distinct (map fst t)"
    using other scanPeople_result [OF that, of cap service] by (cases "test_all service") auto
  have everyone: "scanPeople cap name no_params t = Some (Inr (map snd t))"
    if "distinct (map fst t)"
    using assms scanPeople_result [OF that, of cap name] by simp
  from assms have "scan_filter name = no_params"
    by (simp add: scan_filter_def)
  with request result everyone show ?thesis
    by blast
qed

theorem all_never_a_filter_witness:
  "test_all ''ALL'' \<and> scan_filter ''ALL'' = no_params
   \<and> distinct (map fst three_people)
   \<and> scanPeople pages_of_two ''ALL'' no_params three_people = Some (Inr [bea, cal, dee])
   \<and> ''svc1'' \<noteq> ''ALL''
   \<and> ExpressionAttributeNames (scan_filter ''svc1'')
       = Some [(''#services'', Some (JStr ''_services'')), (''#serviceName'', Some (JStr ''svc1''))]
   \<and> scanPeople pages_of_two ''svc1'' no_params three_people = Some (Inr [bea, dee])"
proof -
  have d: "distinct (map fst three_people)"
    by (simp add: three_people_def)
  have a: "test_all ''ALL''"
    by (simp add: upper_char_def)
  note w = all_never_a_filter [OF a, of three_people pages_of_two "''svc1''"]
  from w have none: "scan_filter ''ALL'' = no_params"
    by (rule conjunct1)
  from w d have everyone:
    "scanPeople pages_of_two ''ALL'' no_params three_people = Some (Inr [bea, cal, dee])"
    by (simp add: three_people_def)
  have f: "scan_filter ''svc1'' \<noteq> no_params"
    by (simp add: scan_filter_def no_params_def upper_char_def)
  with w have names: "ExpressionAttributeNames (scan_filter ''svc1'')
       = Some [(''#services'', Some (JStr ''_services'')), (''#serviceName'', Some (JStr ''svc1''))]"
    by blast
  have "scanPeople pages_of_two ''svc1'' no_params three_people \<noteq> Some (Inr [bea, cal, dee])"
    using scanPeople_result [OF d, of pages_of_two "''svc1''"]
    by (simp add: upper_char_def three_people_def bea_def cal_def dee_def)
  moreover have "scanPeople pages_of_two ''svc1'' no_params three_people
      \<noteq> Some (Inl ValidationException)"
    using scanPeople_result [OF d, of pages_of_two "''svc1''"]
    by (simp add: upper_char_def)
  ultimately have svc1: "scanPeople pages_of_two ''svc1'' no_params three_people
      = Some (Inr [bea, dee])"
    using w d by (auto simp: three_people_def bea_def cal_def dee_def)
  show ?thesis
    using a none d everyone names svc1 by simp
qed

end
